theory Spec2Isabelle
  imports Main "HOL-Library.Word"
begin

section \<open>Strings and constants of main.go\<close>

text \<open>
  A Go string is a sequence of bytes; \<^typ>\<open>string\<close> (a list of \<^typ>\<open>char\<close>, each one
  byte) models it. The four tag names and the extension list are the constants of
  lines 19-23 and 53 of main.go.
\<close>

definition GPSLongitudeRef :: string where
  "GPSLongitudeRef = ''GPSLongitudeRef''"

definition GPSLatitudeRef :: string where
  "GPSLatitudeRef = ''GPSLatitudeRef''"

definition GPSLongitude :: string where
  "GPSLongitude = ''GPSLongitude''"

definition GPSLatitude :: string where
  "GPSLatitude = ''GPSLatitude''"

definition allowedExtensions :: "string list" where
  "allowedExtensions = [''.jpeg'', ''.jpg'', ''.png'', ''.gif'']"

subsection \<open>hasValidExtension (lines 244-251)\<close>

text \<open>
  \<^verbatim>\<open>strings.HasSuffix(s, suffix)\<close> is
  \<^verbatim>\<open>len(s) >= len(suffix) && s[len(s)-len(suffix):] == suffix\<close>: a comparison of bytes,
  with no case folding.
\<close>

definition HasSuffix :: "string \<Rightarrow> string \<Rightarrow> bool" where
  "HasSuffix s suffix =
     (length s \<ge> length suffix \<and> drop (length s - length suffix) s = suffix)"

text \<open>The \<^verbatim>\<open>for _, ext := range allowedExtensions\<close> loop, returning at the first hit.\<close>

fun hasValidExtension_loop :: "string list \<Rightarrow> string \<Rightarrow> bool" where
  "hasValidExtension_loop [] name = False"
| "hasValidExtension_loop (ext # exts) name =
     (if HasSuffix name ext then True else hasValidExtension_loop exts name)"

definition hasValidExtension :: "string \<Rightarrow> bool" where
  "hasValidExtension name = hasValidExtension_loop allowedExtensions name"

section \<open>Numbers as text\<close>

text \<open>
  \<^verbatim>\<open>strconv.Itoa\<close>: the decimal digits of an integer, most significant first, with no
  leading zero and a minus sign for a negative number.
\<close>

definition digit :: "nat \<Rightarrow> char" where
  "digit d = ''0123456789'' ! d"

fun decimal :: "nat \<Rightarrow> string" where
  "decimal n = (if n < 10 then [digit n] else decimal (n div 10) @ [digit (n mod 10)])"

declare decimal.simps [simp del]

definition Itoa :: "int \<Rightarrow> string" where
  "Itoa i = (if i < 0 then CHR ''-'' # decimal (nat (- i)) else decimal (nat i))"

subsection \<open>float32 division and the verb %.2f\<close>

text \<open>
  The seconds are \<^verbatim>\<open>float32(n) / float32(d)\<close> for two \<^verbatim>\<open>uint32\<close> with \<open>d \<noteq> 0\<close>,
  printed with \<^verbatim>\<open>%.2f\<close>. Every value that can occur is zero or lies between \<open>2 ^ - 32\<close>
  and \<open>2 ^ 32\<close>: it is finite, not negative and far from the subnormal range. Such a
  binary32 value is written here as a pair \<open>(m, e)\<close> standing for \<open>m * 2 ^ e\<close>, and each
  operation rounds the exact result to 24 significant bits, to nearest, ties to even,
  as IEEE 754 prescribes for the conversion and for the division.
\<close>

type_synonym float32 = "nat \<times> int"

text \<open>The fraction \<open>a / b\<close> (with \<open>0 < b\<close>) rounded to the nearest integer, ties to even.\<close>

definition round_half_even :: "nat \<Rightarrow> nat \<Rightarrow> nat" where
  "round_half_even a b =
     (let q = a div b; r = a mod b
      in if 2 * r < b then q else if b < 2 * r then q + 1 else if even q then q else q + 1)"

text \<open>Numerator and denominator of \<open>(a / b) * 2 ^ - k\<close>.\<close>

definition scale2 :: "nat \<Rightarrow> nat \<Rightarrow> int \<Rightarrow> nat \<times> nat" where
  "scale2 a b k = (if 0 \<le> k then (a, b * 2 ^ nat k) else (a * 2 ^ nat (- k), b))"

text \<open>The number of binary digits of \<open>n\<close>.\<close>

fun bits :: "nat \<Rightarrow> nat" where
  "bits n = (if n = 0 then 0 else Suc (bits (n div 2)))"

declare bits.simps [simp del]

text \<open>
  The binary32 value nearest to \<open>a / b\<close>: the exponent \<open>e\<close> is chosen with
  \<open>2 ^ 23 \<le> (a / b) * 2 ^ - e < 2 ^ 24\<close>, and the mantissa is that number rounded.
\<close>

definition float32_quot :: "nat \<Rightarrow> nat \<Rightarrow> float32" where
  "float32_quot a b =
     (if a = 0 then (0, 0)
      else let e0 = int (bits a) - int (bits b) - 24;
               e = (case scale2 a b e0 of (n0, d0) \<Rightarrow>
                      if d0 * 2 ^ 24 \<le> n0 then e0 + 1 else e0)
           in case scale2 a b e of (n, d) \<Rightarrow> (round_half_even n d, e))"

text \<open>The conversion \<^verbatim>\<open>float32(x)\<close> of a \<^verbatim>\<open>uint32\<close>.\<close>

definition float32_of_uint32 :: "32 word \<Rightarrow> float32" where
  "float32_of_uint32 w = float32_quot (unat w) 1"

text \<open>The division of two binary32 values, the divisor not zero.\<close>

definition float32_div :: "float32 \<Rightarrow> float32 \<Rightarrow> float32" where
  "float32_div x y =
     (case x of (m1, e1) \<Rightarrow> case y of (m2, e2) \<Rightarrow>
        case float32_quot m1 m2 of (m, e) \<Rightarrow> (m, e + e1 - e2))"

text \<open>
  \<^verbatim>\<open>fmt.Sprintf("%.2f", x)\<close>: the exact value of \<open>x\<close> rounded to hundredths, ties to
  even (\<^verbatim>\<open>strconv\<close> rounds the exact decimal expansion), then the integer part, a
  point and two digits.
\<close>

definition Sprintf_2f :: "float32 \<Rightarrow> string" where
  "Sprintf_2f x =
     (case x of (m, e) \<Rightarrow>
        let h = (case scale2 (m * 100) 1 (- e) of (n, d) \<Rightarrow> round_half_even n d)
        in decimal (h div 100) @ ''.'' @ [digit (h mod 100 div 10), digit (h mod 10)])"

section \<open>The coordinate formatter\<close>

text \<open>
  \<^verbatim>\<open>exifCommon.Rational\<close> of go-exif: a struct of two \<^verbatim>\<open>uint32\<close>.
\<close>

record Rational =
  Numerator :: "32 word"
  Denominator :: "32 word"

text \<open>
  A run-time panic of Go. Indexing a slice out of range panics with the index and the
  length; \<^verbatim>\<open>panic(err)\<close> panics with an error value.
\<close>

datatype go_error = ErrNoExif | GoError string

datatype panic = IndexOutOfRange nat nat | PanicError go_error

definition at_index :: "'a list \<Rightarrow> nat \<Rightarrow> panic + 'a" where
  "at_index xs i =
     (if i < length xs then Inr (xs ! i) else Inl (IndexOutOfRange i (length xs)))"

text \<open>
  The string literal of line 212 is the four bytes C3 82 C2 B0 (the UTF-8 encoding of
  the two code points U+00C2 and U+00B0), not the two bytes C2 B0 of a degree sign.
\<close>

definition position_degree_literal :: string where
  "position_degree_literal = [CHR 0xC3, CHR 0x82, CHR 0xC2, CHR 0xB0]"

text \<open>The degree sign U+00B0 in UTF-8, as the specification writes it.\<close>

definition degree_sign :: string where
  "degree_sign = [CHR 0xC2, CHR 0xB0]"

text \<open>
  parseGPSPosition (lines 206-225). The slice is indexed at 0, 1 and 2 in this order,
  each index checked when it is reached. \<^verbatim>\<open>Numerator / Denominator\<close> is the division
  of \<^verbatim>\<open>uint32\<close>; \<^verbatim>\<open>int(...)\<close> keeps its value (\<^verbatim>\<open>int\<close> has 64 bits).
\<close>

definition parseGPSPosition :: "Rational list \<Rightarrow> panic + string" where
  "parseGPSPosition gpsPosArr =
     (case at_index gpsPosArr 0 of
        Inl p \<Rightarrow> Inl p
      | Inr r0 \<Rightarrow>
          let position =
                (if Denominator r0 \<noteq> 0
                 then Itoa (int (unat (Numerator r0 div Denominator r0)))
                 else ''0'');
              position = position @ position_degree_literal
          in case at_index gpsPosArr 1 of
               Inl p \<Rightarrow> Inl p
             | Inr r1 \<Rightarrow>
                 let position = position @
                       (if Denominator r1 \<noteq> 0
                        then Itoa (int (unat (Numerator r1 div Denominator r1)))
                        else ''0'');
                     position = position @ [CHR 0x27]
                 in case at_index gpsPosArr 2 of
                      Inl p \<Rightarrow> Inl p
                    | Inr r2 \<Rightarrow>
                        Inr (position @
                          (if Denominator r2 \<noteq> 0
                           then Sprintf_2f (float32_div (float32_of_uint32 (Numerator r2))
                                  (float32_of_uint32 (Denominator r2)))
                                @ [CHR 0x27, CHR 0x27]
                           else ''0'' @ [CHR 0x27, CHR 0x27])))"

section \<open>The tag extractor\<close>

text \<open>
  A flattened tag of go-exif: its name and its value, an \<^verbatim>\<open>interface{}\<close>. The two
  dynamic types the program asserts are a string and a slice of \<^verbatim>\<open>Rational\<close>; every
  other dynamic type (bytes, shorts, longs, signed rationals, ...) is \<open>VOther\<close>.
\<close>

datatype tag_value = VString string | VRationals "Rational list" | VOther

record ExifTag =
  TagName :: string
  Value :: tag_value

text \<open>The four local variables of lines 140-143, all empty at first.\<close>

record gps_fields =
  latitudeDirection :: string
  longitudeDirection :: string
  latitudeValue :: string
  longitudeValue :: string

definition no_fields :: gps_fields where
  "no_fields = \<lparr>latitudeDirection = [], longitudeDirection = [],
                 latitudeValue = [], longitudeValue = []\<rparr>"

text \<open>The body of the loop of lines 166-185: the switch on the tag's name.\<close>

definition tag_step :: "ExifTag \<Rightarrow> gps_fields \<Rightarrow> panic + gps_fields" where
  "tag_step exifTag f =
     (if TagName exifTag = GPSLatitudeRef then
        (case Value exifTag of
           VString direction \<Rightarrow> Inr (f\<lparr>latitudeDirection := direction\<rparr>)
         | _ \<Rightarrow> Inr f)
      else if TagName exifTag = GPSLatitude then
        (case Value exifTag of
           VRationals gpsPosArr \<Rightarrow>
             (case parseGPSPosition gpsPosArr of
                Inl p \<Rightarrow> Inl p
              | Inr v \<Rightarrow> Inr (f\<lparr>latitudeValue := v\<rparr>))
         | _ \<Rightarrow> Inr f)
      else if TagName exifTag = GPSLongitudeRef then
        (case Value exifTag of
           VString direction \<Rightarrow> Inr (f\<lparr>longitudeDirection := direction\<rparr>)
         | _ \<Rightarrow> Inr f)
      else if TagName exifTag = GPSLongitude then
        (case Value exifTag of
           VRationals gpsPosArr \<Rightarrow>
             (case parseGPSPosition gpsPosArr of
                Inl p \<Rightarrow> Inl p
              | Inr v \<Rightarrow> Inr (f\<lparr>longitudeValue := v\<rparr>))
         | _ \<Rightarrow> Inr f)
      else Inr f)"

fun tag_loop :: "ExifTag list \<Rightarrow> gps_fields \<Rightarrow> panic + gps_fields" where
  "tag_loop [] f = Inr f"
| "tag_loop (exifTag # exifTags) f =
     (case tag_step exifTag f of
        Inl p \<Rightarrow> Inl p
      | Inr f' \<Rightarrow> tag_loop exifTags f')"

section \<open>The image record builder\<close>

record exifData =
  FilePath :: string
  Latitude :: string
  Longitude :: string

type_synonym bytes = "8 word list"

text \<open>
  A call of the function that main passes to \<^verbatim>\<open>filepath.WalkDir\<close>: either
  \<^verbatim>\<open>fn(path, d, nil)\<close> for a visited entry whose \<^verbatim>\<open>d.Name()\<close> is the second
  argument, or \<^verbatim>\<open>fn(path, d, err)\<close> with \<^verbatim>\<open>err != nil\<close>, which WalkDir makes when
  \<^verbatim>\<open>os.Lstat\<close> fails on the root or \<^verbatim>\<open>ReadDir\<close> fails on a directory.
\<close>

datatype walk_call = Entry string string | WalkError string go_error

text \<open>
  What the program takes from outside: the file system and the go-exif library.
  \<^item> \<open>ReadFile\<close>: \<^verbatim>\<open>ioutil.ReadFile\<close>;
  \<^item> \<open>SearchAndExtractExif\<close>, \<open>GetFlatExifDataUniversalSearch\<close>: the two functions of
    go-exif, the second at the arguments \<^verbatim>\<open>(exifInfo, nil, true)\<close>;
  \<^item> \<open>WalkDir_calls root\<close>: the calls that \<^verbatim>\<open>filepath.WalkDir(root, fn)\<close> makes, in
    order, as long as \<open>fn\<close> returns nil;
  \<^item> \<open>Create\<close>: \<^verbatim>\<open>os.Create\<close>, \<open>None\<close> when the file is created;
  \<^item> \<open>Execute\<close>: \<^verbatim>\<open>tpl.Execute\<close> writing the table of the records to the file;
  \<^item> \<open>Close\<close>: \<^verbatim>\<open>File.Close\<close>.
\<close>

record world =
  ReadFile :: "string \<Rightarrow> go_error + bytes"
  SearchAndExtractExif :: "bytes \<Rightarrow> go_error + bytes"
  GetFlatExifDataUniversalSearch :: "bytes \<Rightarrow> go_error + ExifTag list"
  WalkDir_calls :: "string \<Rightarrow> walk_call list"
  Create :: "string \<Rightarrow> go_error option"
  Execute :: "exifData list \<Rightarrow> go_error option"
  Close :: "string \<Rightarrow> go_error option"

text \<open>
  The errors that extractExifDataFromImage builds with \<^verbatim>\<open>fmt.Errorf\<close>, each from the
  path and the error it wraps:
  \<^item> \<open>ReadFileError\<close>: "error reading from file: %s, with error: %s";
  \<^item> \<open>NoExifError\<close>: "no EXIF data found in the file: %s, with error: %s";
  \<^item> \<open>ExifReadError\<close>: "error reading exif data from file: %s, with error: %s";
  \<^item> \<open>FlatExifError\<close>: "error fetching flat exif data from rawData: %s, with error: %s".
\<close>

datatype extract_error =
    ReadFileError string go_error
  | NoExifError string go_error
  | ExifReadError string go_error
  | FlatExifError string go_error

text \<open>Lines 148-164: reading the file, finding the EXIF block, flattening it.\<close>

definition flatExifTags :: "world \<Rightarrow> string \<Rightarrow> extract_error + ExifTag list" where
  "flatExifTags w imageFilePath =
     (case ReadFile w imageFilePath of
        Inl err \<Rightarrow> Inl (ReadFileError imageFilePath err)
      | Inr data \<Rightarrow>
          (case SearchAndExtractExif w data of
             Inl err \<Rightarrow>
               (if err = ErrNoExif then Inl (NoExifError imageFilePath err)
                else Inl (ExifReadError imageFilePath err))
           | Inr exifInfo \<Rightarrow>
               (case GetFlatExifDataUniversalSearch w exifInfo of
                  Inl err \<Rightarrow> Inl (FlatExifError imageFilePath err)
                | Inr exifTags \<Rightarrow> Inr exifTags)))"

text \<open>
  extractExifDataFromImage (lines 138-204). Its result is a panic, or the pair
  \<^verbatim>\<open>(nil, err)\<close>, or the pair \<^verbatim>\<open>(csvData, nil)\<close>.
\<close>

definition extractExifDataFromImage ::
    "world \<Rightarrow> string \<Rightarrow> panic + (extract_error + exifData)" where
  "extractExifDataFromImage w imageFilePath =
     (case flatExifTags w imageFilePath of
        Inl err \<Rightarrow> Inr (Inl err)
      | Inr exifTags \<Rightarrow>
          (case tag_loop exifTags no_fields of
             Inl p \<Rightarrow> Inl p
           | Inr f \<Rightarrow>
               let finalLat =
                     (if latitudeValue f @ latitudeDirection f = []
                      then ''Not available''
                      else latitudeValue f @ latitudeDirection f);
                   finalLong =
                     (if longitudeValue f @ longitudeDirection f = []
                      then ''Not available''
                      else longitudeValue f @ longitudeDirection f)
               in Inr (Inr \<lparr>FilePath = imageFilePath, Latitude = finalLat,
                              Longitude = finalLong\<rparr>)))"

section \<open>The directory walk and the reports\<close>

text \<open>
  The lines that the program logs:
  \<^item> \<open>LogWalkError\<close>: line 76, "error while walking directory: %s, with error: %s";
  \<^item> \<open>LogExtractError\<close>: line 83; \<open>LogError\<close>: line 90;
  \<^item> \<open>LogCSVCreate\<close>, \<open>LogHTMLCreate\<close>: lines 107 and 122;
  \<^item> \<open>LogFatalCreate\<close>: the \<^verbatim>\<open>log.Fatalf\<close> of line 230;
  \<^item> \<open>LogCloseError\<close>: line 239.
\<close>

datatype log_entry =
    LogWalkError string go_error
  | LogExtractError extract_error
  | LogError go_error
  | LogCSVCreate go_error
  | LogHTMLCreate go_error
  | LogFatalCreate go_error
  | LogCloseError

text \<open>
  What a report file holds: the rows given to the CSV writer, the records given to
  the template, or nothing yet (a file just created).
\<close>

datatype report = CSV "string list list" | HTML "exifData list" | Truncated

text \<open>
  How the process ends: main returns, \<^verbatim>\<open>os.Exit\<close> is called with a status
  (\<^verbatim>\<open>log.Fatalf\<close> calls \<^verbatim>\<open>os.Exit(1)\<close>), or a panic reaches the top.
\<close>

datatype ending = Returned | Exit nat | Panicked panic

datatype 'a flow = Continue 'a | Stop ending

record proc =
  logged :: "log_entry list"
  exifDataArr :: "exifData list"
  files :: "string \<rightharpoonup> report"

definition start :: proc where
  "start = \<lparr>logged = [], exifDataArr = [], files = Map.empty\<rparr>"

text \<open>The function literal of lines 74-89.\<close>

fun walkFn :: "world \<Rightarrow> walk_call \<Rightarrow> proc \<Rightarrow> go_error option flow \<times> proc" where
  "walkFn w (WalkError path err) s =
     (Continue (Some err), s\<lparr>logged := logged s @ [LogWalkError path err]\<rparr>)"
| "walkFn w (Entry path name) s =
     (if hasValidExtension name then
        (case extractExifDataFromImage w path of
           Inl p \<Rightarrow> (Stop (Panicked p), s)
         | Inr (Inl extractErr) \<Rightarrow>
             (Continue None, s\<lparr>logged := logged s @ [LogExtractError extractErr]\<rparr>)
         | Inr (Inr d) \<Rightarrow>
             (Continue None, s\<lparr>exifDataArr := exifDataArr s @ [d]\<rparr>))
      else (Continue None, s))"

text \<open>
  \<^verbatim>\<open>filepath.WalkDir\<close>: it makes its calls in order and stops at the first one that
  does not return nil, returning that error. (The errors \<^verbatim>\<open>SkipDir\<close> and
  \<^verbatim>\<open>SkipAll\<close> would be treated otherwise; the function of main returns only nil or
  the error it was given, which comes from Lstat or ReadDir.)
\<close>

fun WalkDir ::
    "walk_call list \<Rightarrow> (walk_call \<Rightarrow> proc \<Rightarrow> go_error option flow \<times> proc) \<Rightarrow> proc
       \<Rightarrow> go_error option flow \<times> proc" where
  "WalkDir [] fn s = (Continue None, s)"
| "WalkDir (c # cs) fn s =
     (case fn c s of
        (Stop t, s') \<Rightarrow> (Stop t, s')
      | (Continue (Some err), s') \<Rightarrow> (Continue (Some err), s')
      | (Continue None, s') \<Rightarrow> WalkDir cs fn s')"

text \<open>Lines 71-89: the walk over the root, from an empty exifDataArr.\<close>

definition aggregate :: "world \<Rightarrow> string \<Rightarrow> go_error option flow \<times> proc" where
  "aggregate w root = WalkDir (WalkDir_calls w root) (walkFn w) start"

text \<open>createFile (lines 227-233): \<^verbatim>\<open>log.Fatalf\<close> logs and ends the process.\<close>

definition createFile :: "world \<Rightarrow> string \<Rightarrow> proc \<Rightarrow> go_error option flow \<times> proc" where
  "createFile w fileName s =
     (case Create w fileName of
        Some err \<Rightarrow> (Stop (Exit 1), s\<lparr>logged := logged s @ [LogFatalCreate err]\<rparr>)
      | None \<Rightarrow> (Continue None, s\<lparr>files := (files s)(fileName \<mapsto> Truncated)\<rparr>))"

text \<open>closeFile (lines 235-242).\<close>

definition closeFile :: "world \<Rightarrow> string \<Rightarrow> proc \<Rightarrow> proc" where
  "closeFile w fileName s =
     (case Close w fileName of
        Some err \<Rightarrow> s\<lparr>logged := logged s @ [LogCloseError]\<rparr>
      | None \<Rightarrow> s)"

text \<open>
  writeToCSV (lines 104-117). The errors of the writer are dropped by the source; the
  deferred closeFile runs when the function returns.
\<close>

definition writeToCSV :: "world \<Rightarrow> exifData list \<Rightarrow> proc \<Rightarrow> unit flow \<times> proc" where
  "writeToCSV w csvDataArr s =
     (case createFile w ''exif-data.csv'' s of
        (Stop t, s') \<Rightarrow> (Stop t, s')
      | (Continue (Some err), s') \<Rightarrow>
          (Continue (), s'\<lparr>logged := logged s' @ [LogCSVCreate err]\<rparr>)
      | (Continue None, s') \<Rightarrow>
          let rows = [''File Path'', ''Latitude'', ''Longitude'']
                     # map (\<lambda>csvData. [FilePath csvData, Latitude csvData, Longitude csvData])
                         csvDataArr
          in (Continue (),
              closeFile w ''exif-data.csv''
                (s'\<lparr>files := (files s')(''exif-data.csv'' \<mapsto> CSV rows)\<rparr>)))"

text \<open>
  writeToHTML (lines 119-136). The template is a constant of the program and parses;
  an error of Execute panics, and the deferred closeFile runs before the panic leaves
  the function.
\<close>

definition writeToHTML :: "world \<Rightarrow> exifData list \<Rightarrow> proc \<Rightarrow> unit flow \<times> proc" where
  "writeToHTML w data s =
     (case createFile w ''exif-data.html'' s of
        (Stop t, s') \<Rightarrow> (Stop t, s')
      | (Continue (Some err), s') \<Rightarrow>
          (Continue (), s'\<lparr>logged := logged s' @ [LogHTMLCreate err]\<rparr>)
      | (Continue None, s') \<Rightarrow>
          (case Execute w data of
             Some err \<Rightarrow> (Stop (Panicked (PanicError err)), closeFile w ''exif-data.html'' s')
           | None \<Rightarrow>
               (Continue (),
                closeFile w ''exif-data.html''
                  (s'\<lparr>files := (files s')(''exif-data.html'' \<mapsto> HTML data)\<rparr>))))"

text \<open>The command line flags of lines 61-63.\<close>

record flags =
  htmlFlag :: bool
  csvFlag :: bool
  rootPath :: string

text \<open>Lines 66-69: the root of the walk.\<close>

definition directoryPath :: "flags \<Rightarrow> string" where
  "directoryPath fl = (if rootPath fl \<noteq> [] then rootPath fl else ''images'')"

text \<open>main (lines 59-102): how the process ends and what it has logged and written.\<close>

definition main :: "world \<Rightarrow> flags \<Rightarrow> ending \<times> proc" where
  "main w fl =
     (case aggregate w (directoryPath fl) of
        (Stop t, s) \<Rightarrow> (t, s)
      | (Continue (Some err), s) \<Rightarrow> (Returned, s\<lparr>logged := logged s @ [LogError err]\<rparr>)
      | (Continue None, s) \<Rightarrow>
          (if htmlFlag fl \<and> \<not> csvFlag fl then
             (case writeToHTML w (exifDataArr s) s of
                (Stop t, s') \<Rightarrow> (t, s')
              | (Continue u, s') \<Rightarrow> (Returned, s'))
           else if \<not> htmlFlag fl \<and> csvFlag fl then
             (case writeToCSV w (exifDataArr s) s of
                (Stop t, s') \<Rightarrow> (t, s')
              | (Continue u, s') \<Rightarrow> (Returned, s'))
           else
             (case writeToCSV w (exifDataArr s) s of
                (Stop t, s') \<Rightarrow> (t, s')
              | (Continue u, s') \<Rightarrow>
                  (case writeToHTML w (exifDataArr s) s' of
                     (Stop t, s'') \<Rightarrow> (t, s'')
                   | (Continue u', s'') \<Rightarrow> (Returned, s'')))))"

section \<open>Reading a walk\<close>

text \<open>
  The notions in which the properties of the walk are stated: the errors that the walk
  itself delivers, the paths of the entries that pass the extension filter, the results
  of the builder on them in the order of the walk, and the three kinds of result.
\<close>

fun walk_errors :: "walk_call list \<Rightarrow> (string \<times> go_error) list" where
  "walk_errors [] = []"
| "walk_errors (WalkError path err # cs) = (path, err) # walk_errors cs"
| "walk_errors (Entry path name # cs) = walk_errors cs"

fun eligible_paths :: "walk_call list \<Rightarrow> string list" where
  "eligible_paths [] = []"
| "eligible_paths (WalkError path err # cs) = eligible_paths cs"
| "eligible_paths (Entry path name # cs) =
     (if hasValidExtension name then path # eligible_paths cs else eligible_paths cs)"

definition outcomes ::
    "world \<Rightarrow> walk_call list \<Rightarrow> (panic + (extract_error + exifData)) list" where
  "outcomes w cs = map (extractExifDataFromImage w) (eligible_paths cs)"

fun records :: "(panic + (extract_error + exifData)) list \<Rightarrow> exifData list" where
  "records [] = []"
| "records (Inr (Inr d) # rs) = d # records rs"
| "records (Inr (Inl e) # rs) = records rs"
| "records (Inl p # rs) = records rs"

fun failures :: "(panic + (extract_error + exifData)) list \<Rightarrow> extract_error list" where
  "failures [] = []"
| "failures (Inr (Inr d) # rs) = failures rs"
| "failures (Inr (Inl e) # rs) = e # failures rs"
| "failures (Inl p # rs) = failures rs"

fun panics :: "(panic + (extract_error + exifData)) list \<Rightarrow> panic list" where
  "panics [] = []"
| "panics (Inr (Inr d) # rs) = panics rs"
| "panics (Inr (Inl e) # rs) = panics rs"
| "panics (Inl p # rs) = p # panics rs"

section \<open>A directory of examples\<close>

text \<open>
  A world on which the theorems below are run: the directory \<open>images\<close> holds
  \<open>a.jpg\<close> (latitude tags only), \<open>b.png\<close> (an EXIF block with no GPS tag),
  \<open>bad.jpg\<close> (no EXIF block) and \<open>notes.txt\<close>, visited in this order, the lexical
  one of WalkDir; every other root does not exist.
\<close>

definition tags_a :: "ExifTag list" where
  "tags_a =
     [\<lparr>TagName = ''Make'', Value = VString ''Canon''\<rparr>,
      \<lparr>TagName = ''GPSLatitudeRef'', Value = VString ''N''\<rparr>,
      \<lparr>TagName = ''GPSLatitude'', Value = VRationals
         [\<lparr>Numerator = 34, Denominator = 1\<rparr>, \<lparr>Numerator = 5, Denominator = 1\<rparr>,
          \<lparr>Numerator = 1200, Denominator = 100\<rparr>]\<rparr>,
      \<lparr>TagName = ''GPSAltitude'', Value = VOther\<rparr>]"

definition tags_b :: "ExifTag list" where
  "tags_b = [\<lparr>TagName = ''Make'', Value = VString ''Canon''\<rparr>]"

definition example_calls :: "walk_call list" where
  "example_calls =
     [Entry ''images'' ''images'', Entry ''images/a.jpg'' ''a.jpg'',
      Entry ''images/b.png'' ''b.png'', Entry ''images/bad.jpg'' ''bad.jpg'',
      Entry ''images/notes.txt'' ''notes.txt'']"

definition example_world :: world where
  "example_world =
     \<lparr>ReadFile = (\<lambda>path.
        if path = ''images/a.jpg'' then Inr [1]
        else if path = ''images/b.png'' then Inr [2]
        else if path = ''images/bad.jpg'' then Inr [3]
        else Inl (GoError ''no such file or directory'')),
      SearchAndExtractExif = (\<lambda>data.
        if data = [1] then Inr [1] else if data = [2] then Inr [2] else Inl ErrNoExif),
      GetFlatExifDataUniversalSearch = (\<lambda>exifInfo.
        if exifInfo = [1] then Inr tags_a else Inr tags_b),
      WalkDir_calls = (\<lambda>root.
        if root = ''images'' then example_calls
        else [WalkError root (GoError ''no such file or directory'')]),
      Create = (\<lambda>fileName. None),
      Execute = (\<lambda>data. None),
      Close = (\<lambda>fileName. None)\<rparr>"

text \<open>The records that the builder makes of \<open>a.jpg\<close> and of \<open>b.png\<close>.\<close>

definition record_a :: exifData where
  "record_a = \<lparr>FilePath = ''images/a.jpg'',
       Latitude = ''34'' @ [CHR 0xC3, CHR 0x82, CHR 0xC2, CHR 0xB0] @ ''5''
                  @ [CHR 0x27] @ ''12.00'' @ [CHR 0x27, CHR 0x27] @ ''N'',
       Longitude = ''Not available''\<rparr>"

definition record_b :: exifData where
  "record_b = \<lparr>FilePath = ''images/b.png'', Latitude = ''Not available'',
       Longitude = ''Not available''\<rparr>"

text \<open>The same directory when \<open>exif-data.csv\<close> cannot be created.\<close>

definition csv_blocked_world :: world where
  "csv_blocked_world =
     example_world\<lparr>Create := (\<lambda>fileName.
        if fileName = ''exif-data.csv'' then Some (GoError ''is a directory'') else None)\<rparr>"

text \<open>The same directory with a subdirectory that cannot be read, met after \<open>a.jpg\<close>.\<close>

definition unreadable_subdir_world :: world where
  "unreadable_subdir_world =
     example_world\<lparr>WalkDir_calls := (\<lambda>root.
        [Entry ''images'' ''images'', Entry ''images/a.jpg'' ''a.jpg'',
         Entry ''images/private'' ''private'',
         WalkError ''images/private'' (GoError ''permission denied''),
         Entry ''images/z.jpg'' ''z.jpg''])\<rparr>"

text \<open>
  A directory with one image whose EXIF block is damaged between two sound ones:
  \<open>short.jpg\<close> carries a GPSLatitude of two rationals instead of three.
\<close>

definition tags_short :: "ExifTag list" where
  "tags_short =
     [\<lparr>TagName = ''Make'', Value = VString ''Canon''\<rparr>,
      \<lparr>TagName = ''GPSLatitude'', Value = VRationals
         [\<lparr>Numerator = 34, Denominator = 1\<rparr>, \<lparr>Numerator = 5, Denominator = 1\<rparr>]\<rparr>]"

definition short_slice_calls :: "walk_call list" where
  "short_slice_calls =
     [Entry ''images'' ''images'', Entry ''images/a.jpg'' ''a.jpg'',
      Entry ''images/short.jpg'' ''short.jpg'', Entry ''images/z.png'' ''z.png'']"

definition short_slice_world :: world where
  "short_slice_world =
     \<lparr>ReadFile = (\<lambda>path.
        if path = ''images/a.jpg'' then Inr [1]
        else if path = ''images/short.jpg'' then Inr [4]
        else if path = ''images/z.png'' then Inr [2]
        else Inl (GoError ''no such file or directory'')),
      SearchAndExtractExif = (\<lambda>data. Inr data),
      GetFlatExifDataUniversalSearch = (\<lambda>exifInfo.
        if exifInfo = [1] then Inr tags_a
        else if exifInfo = [4] then Inr tags_short
        else Inr tags_b),
      WalkDir_calls = (\<lambda>root. short_slice_calls),
      Create = (\<lambda>fileName. None),
      Execute = (\<lambda>data. None),
      Close = (\<lambda>fileName. None)\<rparr>"

definition record_z :: exifData where
  "record_z = \<lparr>FilePath = ''images/z.png'', Latitude = ''Not available'',
       Longitude = ''Not available''\<rparr>"

text \<open>The command line with no flag, and the one with \<open>-path missing\<close>.\<close>

definition no_flags :: flags where
  "no_flags = \<lparr>htmlFlag = False, csvFlag = False, rootPath = []\<rparr>"

definition missing_root_flags :: flags where
  "missing_root_flags = \<lparr>htmlFlag = False, csvFlag = False, rootPath = ''missing''\<rparr>"

section \<open>The extension filter\<close>

lemma HasSuffix_iff: "HasSuffix s suffix = (\<exists>pre. s = pre @ suffix)"
proof
  assume h: "HasSuffix s suffix"
  then have "s = take (length s - length suffix) s @ suffix"
    by (metis HasSuffix_def append_take_drop_id)
  then show "\<exists>pre. s = pre @ suffix" by blast
next
  assume "\<exists>pre. s = pre @ suffix"
  then obtain pre where "s = pre @ suffix" by blast
  then show "HasSuffix s suffix" by (simp add: HasSuffix_def)
qed

text \<open>
  C7. With the default extension list, a name passes the filter exactly when it ends,
  byte for byte, with \<open>.jpeg\<close>, \<open>.jpg\<close>, \<open>.png\<close> or \<open>.gif\<close>; \<open>photo.JPG\<close> does not
  pass and \<open>photo.jpg\<close> does.
\<close>

theorem hasValidExtension_exact_suffix:
  "hasValidExtension name =
     (\<exists>pre. name = pre @ ''.jpeg'' \<or> name = pre @ ''.jpg''
          \<or> name = pre @ ''.png'' \<or> name = pre @ ''.gif'')
   \<and> hasValidExtension ''photo.JPG'' = False
   \<and> hasValidExtension ''photo.jpg'' = True"
proof -
  have a: "hasValidExtension name =
     (\<exists>pre. name = pre @ ''.jpeg'' \<or> name = pre @ ''.jpg''
          \<or> name = pre @ ''.png'' \<or> name = pre @ ''.gif'')"
    unfolding hasValidExtension_def allowedExtensions_def
    by (simp add: HasSuffix_iff) blast
  have b: "hasValidExtension ''photo.JPG'' = False"
    by (simp add: hasValidExtension_def allowedExtensions_def HasSuffix_def)
  have c: "hasValidExtension ''photo.jpg'' = True"
    by (simp add: hasValidExtension_def allowedExtensions_def HasSuffix_def)
  from a b c show ?thesis by blast
qed

section \<open>The coordinate formatter on its inputs\<close>

lemmas format_simps = parseGPSPosition_def at_index_def Itoa_def decimal.simps digit_def
  Sprintf_2f_def float32_div_def float32_of_uint32_def float32_quot_def scale2_def
  round_half_even_def bits.simps Let_def position_degree_literal_def degree_sign_def

lemmas tag_simps = tag_step_def GPSLatitude_def GPSLatitudeRef_def GPSLongitude_def
  GPSLongitudeRef_def no_fields_def

text \<open>
  C2. For the triplet (34,1), (5,1), (1200,100) the formatter returns the degrees 34 and
  the minutes 5 by integer division and the seconds 12.00 with two decimals, but the
  bytes between degrees and minutes are C3 82 C2 B0 and not the degree sign C2 B0: the
  result is not the string that the specification gives.
\<close>

theorem parseGPSPosition_example_bytes:
  "parseGPSPosition
      [\<lparr>Numerator = 34, Denominator = 1\<rparr>, \<lparr>Numerator = 5, Denominator = 1\<rparr>,
       \<lparr>Numerator = 1200, Denominator = 100\<rparr>]
    = Inr (''34'' @ [CHR 0xC3, CHR 0x82, CHR 0xC2, CHR 0xB0] @ ''5'' @ [CHR 0x27]
           @ ''12.00'' @ [CHR 0x27, CHR 0x27])
  \<and> parseGPSPosition
      [\<lparr>Numerator = 34, Denominator = 1\<rparr>, \<lparr>Numerator = 5, Denominator = 1\<rparr>,
       \<lparr>Numerator = 1200, Denominator = 100\<rparr>]
    \<noteq> Inr (''34'' @ degree_sign @ ''5'' @ [CHR 0x27] @ ''12.00'' @ [CHR 0x27, CHR 0x27])"
  by (simp add: format_simps)

text \<open>
  C3. For every triplet whose three denominators are zero the formatter returns, with
  no panic and no division, a zero for each component; but again with the bytes
  C3 82 C2 B0 where the specification has the degree sign, so the result is not the
  string that it gives.
\<close>

theorem parseGPSPosition_zero_denominators_bytes:
  "parseGPSPosition
      [\<lparr>Numerator = a, Denominator = 0\<rparr>, \<lparr>Numerator = b, Denominator = 0\<rparr>,
       \<lparr>Numerator = c, Denominator = 0\<rparr>]
    = Inr (''0'' @ [CHR 0xC3, CHR 0x82, CHR 0xC2, CHR 0xB0] @ ''0'' @ [CHR 0x27]
           @ ''0'' @ [CHR 0x27, CHR 0x27])
  \<and> parseGPSPosition
      [\<lparr>Numerator = a, Denominator = 0\<rparr>, \<lparr>Numerator = b, Denominator = 0\<rparr>,
       \<lparr>Numerator = c, Denominator = 0\<rparr>]
    \<noteq> Inr (''0'' @ degree_sign @ ''0'' @ [CHR 0x27] @ ''0'' @ [CHR 0x27, CHR 0x27])"
  by (simp add: parseGPSPosition_def at_index_def position_degree_literal_def degree_sign_def)

section \<open>The tag extractor on a short slice\<close>

text \<open>
  C1. A GPSLatitude tag whose value is a slice of two rationals, or a GPSLongitude tag
  whose value is an empty slice, passes the type assertion; the formatter then indexes
  past the end and the loop panics, instead of leaving the tag aside.
\<close>

theorem tag_loop_short_slice_panics:
  "tag_loop [\<lparr>TagName = GPSLatitude, Value = VRationals
        [\<lparr>Numerator = 34, Denominator = 1\<rparr>, \<lparr>Numerator = 5, Denominator = 1\<rparr>]\<rparr>] no_fields
     = Inl (IndexOutOfRange 2 2)
   \<and> tag_loop [\<lparr>TagName = GPSLongitude, Value = VRationals []\<rparr>] no_fields
     = Inl (IndexOutOfRange 0 0)"
  by (simp add: tag_simps parseGPSPosition_def at_index_def Let_def)

section \<open>The image record builder\<close>

lemma tag_step_other:
  "TagName t \<noteq> GPSLatitudeRef \<Longrightarrow> TagName t \<noteq> GPSLatitude \<Longrightarrow>
   TagName t \<noteq> GPSLongitudeRef \<Longrightarrow> TagName t \<noteq> GPSLongitude \<Longrightarrow> tag_step t f = Inr f"
  by (simp add: tag_step_def)

lemma tag_loop_no_gps:
  "\<forall>t \<in> set ts. TagName t \<noteq> GPSLatitudeRef \<and> TagName t \<noteq> GPSLatitude
       \<and> TagName t \<noteq> GPSLongitudeRef \<and> TagName t \<noteq> GPSLongitude \<Longrightarrow>
   tag_loop ts f = Inr f"
  by (induction ts) (simp_all add: tag_step_other)

text \<open>
  C4. Whenever the builder returns a record, the flattened tags were read and the tag
  loop ended with some fields; on each axis the record holds \<open>Not available\<close> when
  value and direction are both empty, and otherwise the value followed by the
  direction; neither field is empty; and when no tag bears one of the four GPS names,
  both fields are \<open>Not available\<close>.
\<close>

theorem extractExifDataFromImage_composes_fields:
  assumes "extractExifDataFromImage w path = Inr (Inr d)"
  shows "\<exists>exifTags f.
      flatExifTags w path = Inr exifTags \<and> tag_loop exifTags no_fields = Inr f
    \<and> FilePath d = path
    \<and> Latitude d = (if latitudeValue f = [] \<and> latitudeDirection f = [] then ''Not available''
                    else latitudeValue f @ latitudeDirection f)
    \<and> Longitude d = (if longitudeValue f = [] \<and> longitudeDirection f = [] then ''Not available''
                    else longitudeValue f @ longitudeDirection f)
    \<and> Latitude d \<noteq> [] \<and> Longitude d \<noteq> []
    \<and> ((\<forall>t \<in> set exifTags. TagName t \<noteq> GPSLatitudeRef \<and> TagName t \<noteq> GPSLatitude
           \<and> TagName t \<noteq> GPSLongitudeRef \<and> TagName t \<noteq> GPSLongitude)
         \<longrightarrow> Latitude d = ''Not available'' \<and> Longitude d = ''Not available'')"
proof -
  from assms obtain exifTags where t: "flatExifTags w path = Inr exifTags"
    by (auto simp: extractExifDataFromImage_def split: sum.splits)
  with assms obtain f where f: "tag_loop exifTags no_fields = Inr f"
    by (auto simp: extractExifDataFromImage_def split: sum.splits)
  from assms t f have d: "d = \<lparr>FilePath = path,
      Latitude = (if latitudeValue f @ latitudeDirection f = [] then ''Not available''
                  else latitudeValue f @ latitudeDirection f),
      Longitude = (if longitudeValue f @ longitudeDirection f = [] then ''Not available''
                  else longitudeValue f @ longitudeDirection f)\<rparr>"
    by (simp add: extractExifDataFromImage_def Let_def)
  have none: "Latitude d = ''Not available'' \<and> Longitude d = ''Not available''"
    if "\<forall>t \<in> set exifTags. TagName t \<noteq> GPSLatitudeRef \<and> TagName t \<noteq> GPSLatitude
           \<and> TagName t \<noteq> GPSLongitudeRef \<and> TagName t \<noteq> GPSLongitude"
  proof -
    from that have "tag_loop exifTags no_fields = Inr no_fields" by (rule tag_loop_no_gps)
    with f have "f = no_fields" by simp
    then show ?thesis by (simp add: d no_fields_def)
  qed
  from t f d none show ?thesis by (intro exI [of _ exifTags] exI [of _ f]) simp
qed

subsection \<open>The builder on the examples\<close>

lemma flat_a: "flatExifTags example_world ''images/a.jpg'' = Inr tags_a"
  by (simp add: flatExifTags_def example_world_def)

lemma flat_b: "flatExifTags example_world ''images/b.png'' = Inr tags_b"
  by (simp add: flatExifTags_def example_world_def)

lemma flat_bad: "flatExifTags example_world ''images/bad.jpg'' =
    Inl (NoExifError ''images/bad.jpg'' ErrNoExif)"
  by (simp add: flatExifTags_def example_world_def)

lemma loop_a: "tag_loop tags_a no_fields =
    Inr \<lparr>latitudeDirection = ''N'', longitudeDirection = [],
         latitudeValue = ''34'' @ [CHR 0xC3, CHR 0x82, CHR 0xC2, CHR 0xB0] @ ''5''
                  @ [CHR 0x27] @ ''12.00'' @ [CHR 0x27, CHR 0x27],
         longitudeValue = []\<rparr>"
  by (simp add: tags_a_def tag_simps format_simps)

lemma loop_b: "tag_loop tags_b no_fields =
    Inr \<lparr>latitudeDirection = [], longitudeDirection = [], latitudeValue = [],
         longitudeValue = []\<rparr>"
  by (simp add: tags_b_def tag_simps)

lemma build_a: "extractExifDataFromImage example_world ''images/a.jpg'' = Inr (Inr record_a)"
  by (simp add: extractExifDataFromImage_def flat_a loop_a record_a_def)

lemma build_b: "extractExifDataFromImage example_world ''images/b.png'' = Inr (Inr record_b)"
  by (simp add: extractExifDataFromImage_def flat_b loop_b record_b_def)

lemma build_bad: "extractExifDataFromImage example_world ''images/bad.jpg'' =
    Inr (Inl (NoExifError ''images/bad.jpg'' ErrNoExif))"
  by (simp add: extractExifDataFromImage_def flat_bad)

text \<open>
  The theorem at \<open>b.png\<close>, which has no GPS tag, and at \<open>a.jpg\<close>, which has the two
  latitude tags only.
\<close>

theorem extractExifDataFromImage_composes_fields_witness:
  "extractExifDataFromImage example_world ''images/b.png'' = Inr (Inr record_b)
   \<and> Latitude record_b = ''Not available'' \<and> Longitude record_b = ''Not available''
   \<and> extractExifDataFromImage example_world ''images/a.jpg'' = Inr (Inr record_a)
   \<and> Latitude record_a = ''34'' @ [CHR 0xC3, CHR 0x82, CHR 0xC2, CHR 0xB0] @ ''5''
                  @ [CHR 0x27] @ ''12.00'' @ [CHR 0x27, CHR 0x27] @ ''N''
   \<and> Longitude record_a = ''Not available''"
proof -
  from extractExifDataFromImage_composes_fields [OF build_b] obtain exifTags f where
    b: "flatExifTags example_world ''images/b.png'' = Inr exifTags"
      "(\<forall>t \<in> set exifTags. TagName t \<noteq> GPSLatitudeRef \<and> TagName t \<noteq> GPSLatitude
           \<and> TagName t \<noteq> GPSLongitudeRef \<and> TagName t \<noteq> GPSLongitude)
         \<longrightarrow> Latitude record_b = ''Not available'' \<and> Longitude record_b = ''Not available''"
    by blast
  from b(1) have "exifTags = tags_b" by (simp add: flat_b)
  with b(2) have nb: "Latitude record_b = ''Not available'' \<and> Longitude record_b = ''Not available''"
    by (simp add: tags_b_def GPSLatitude_def GPSLatitudeRef_def GPSLongitude_def GPSLongitudeRef_def)
  from extractExifDataFromImage_composes_fields [OF build_a] obtain exifTags' f' where
    a: "flatExifTags example_world ''images/a.jpg'' = Inr exifTags'"
       "tag_loop exifTags' no_fields = Inr f'"
       "Latitude record_a = (if latitudeValue f' = [] \<and> latitudeDirection f' = []
          then ''Not available'' else latitudeValue f' @ latitudeDirection f')"
       "Longitude record_a = (if longitudeValue f' = [] \<and> longitudeDirection f' = []
          then ''Not available'' else longitudeValue f' @ longitudeDirection f')"
    by blast
  from a(1) have "exifTags' = tags_a" by (simp add: flat_a)
  with a(2) have "f' = \<lparr>latitudeDirection = ''N'', longitudeDirection = [],
         latitudeValue = ''34'' @ [CHR 0xC3, CHR 0x82, CHR 0xC2, CHR 0xB0] @ ''5''
                  @ [CHR 0x27] @ ''12.00'' @ [CHR 0x27, CHR 0x27],
         longitudeValue = []\<rparr>" by (simp add: loop_a)
  with a(3,4) have na: "Latitude record_a = ''34'' @ [CHR 0xC3, CHR 0x82, CHR 0xC2, CHR 0xB0] @ ''5''
                  @ [CHR 0x27] @ ''12.00'' @ [CHR 0x27, CHR 0x27] @ ''N''
     \<and> Longitude record_a = ''Not available''" by simp
  from nb na build_a build_b show ?thesis by blast
qed

section \<open>The directory walk\<close>

text \<open>
  A walk that delivers no error of its own and on which the builder never panics runs
  to its end; it logs the errors of the builder and appends its records, both in the
  order of the walk.
\<close>

lemma WalkDir_entries:
  "walk_errors calls = [] \<Longrightarrow> panics (outcomes w calls) = [] \<Longrightarrow>
   WalkDir calls (walkFn w) s =
     (Continue None,
      s\<lparr>logged := logged s @ map LogExtractError (failures (outcomes w calls)),
        exifDataArr := exifDataArr s @ records (outcomes w calls)\<rparr>)"
proof (induction calls arbitrary: s)
  case Nil
  then show ?case by (simp add: outcomes_def)
next
  case (Cons c cs)
  show ?case
  proof (cases c)
    case (WalkError path err)
    with Cons.prems show ?thesis by simp
  next
    case (Entry path name)
    show ?thesis
    proof (cases "hasValidExtension name")
      case False
      with Entry Cons show ?thesis by (simp add: outcomes_def)
    next
      case True
      show ?thesis
      proof (cases "extractExifDataFromImage w path")
        case (Inl p)
        with Entry True Cons.prems show ?thesis by (simp add: outcomes_def)
      next
        case (Inr r)
        show ?thesis
        proof (cases r)
          case (Inl e)
          with Inr Entry True Cons.prems
          have "walk_errors cs = []" "panics (outcomes w cs) = []"
            by (simp_all add: outcomes_def)
          from Cons.IH [OF this] Inl Inr Entry True show ?thesis
            by (simp add: outcomes_def)
        next
          case (Inr d)
          with \<open>extractExifDataFromImage w path = Inr r\<close> Entry True Cons.prems
          have "walk_errors cs = []" "panics (outcomes w cs) = []"
            by (simp_all add: outcomes_def)
          from Cons.IH [OF this] Inr \<open>extractExifDataFromImage w path = Inr r\<close> Entry True
          show ?thesis by (simp add: outcomes_def)
        qed
      qed
    qed
  qed
qed

lemma WalkDir_append:
  "WalkDir (xs @ ys) fn s =
     (case WalkDir xs fn s of
        (Continue None, s') \<Rightarrow> WalkDir ys fn s'
      | (Continue (Some err), s') \<Rightarrow> (Continue (Some err), s')
      | (Stop t, s') \<Rightarrow> (Stop t, s'))"
  by (induction xs arbitrary: s) (auto split: prod.splits flow.splits option.splits)

lemma length_outcomes_kinds:
  "length rs = length (records rs) + length (failures rs) + length (panics rs)"
  by (induction rs rule: records.induct) simp_all

subsection \<open>The walk on the examples\<close>

lemma ext_examples:
  "hasValidExtension ''images'' = False" "hasValidExtension ''a.jpg'' = True"
  "hasValidExtension ''bad.jpg'' = True" "hasValidExtension ''b.png'' = True"
  "hasValidExtension ''notes.txt'' = False" "hasValidExtension ''private'' = False"
  "hasValidExtension ''z.jpg'' = True"
  by (simp_all add: hasValidExtension_def allowedExtensions_def HasSuffix_def)

lemma eligible_example:
  "eligible_paths example_calls = [''images/a.jpg'', ''images/b.png'', ''images/bad.jpg'']"
  by (simp add: example_calls_def ext_examples)

lemma outcomes_example:
  "outcomes example_world example_calls =
     [Inr (Inr record_a), Inr (Inr record_b), Inr (Inl (NoExifError ''images/bad.jpg'' ErrNoExif))]"
  by (simp add: outcomes_def eligible_example build_a build_b build_bad)

lemma calls_example: "WalkDir_calls example_world ''images'' = example_calls"
  by (simp add: example_world_def)

subsection \<open>One image that fails among two that do not\<close>

text \<open>
  When the walk of the root delivers no error of its own and exactly three of its
  entries pass the extension filter, one on which the builder returns the error \<open>e\<close>
  and two on which it returns the records \<open>d1\<close> and \<open>d2\<close>, in this order of visit,
  then at whatever place the failing one stands the walk runs to its end and returns
  nil, exactly that one error is logged, and exifDataArr is \<open>[d1, d2]\<close>.
\<close>

lemma aggregate_tolerates_returned_error:
  assumes "walk_errors (WalkDir_calls w root) = []"
    and "length (outcomes w (WalkDir_calls w root)) = 3"
    and "failures (outcomes w (WalkDir_calls w root)) = [e]"
    and "records (outcomes w (WalkDir_calls w root)) = [d1, d2]"
  shows "aggregate w root =
     (Continue None, \<lparr>logged = [LogExtractError e], exifDataArr = [d1, d2], files = Map.empty\<rparr>)"
proof -
  from assms(2-4) length_outcomes_kinds [of "outcomes w (WalkDir_calls w root)"]
  have "panics (outcomes w (WalkDir_calls w root)) = []" by simp
  from WalkDir_entries [OF assms(1) this, of start] assms(3,4)
  show ?thesis by (simp add: aggregate_def start_def)
qed

text \<open>The directory of examples, where \<open>bad.jpg\<close> is visited after the two others.\<close>

lemma aggregate_example:
  "aggregate example_world ''images'' =
     (Continue None,
      \<lparr>logged = [LogExtractError (NoExifError ''images/bad.jpg'' ErrNoExif)],
        exifDataArr = [record_a, record_b], files = Map.empty\<rparr>)"
proof -
  have 1: "walk_errors (WalkDir_calls example_world ''images'') = []"
    by (simp add: calls_example example_calls_def)
  have 2: "length (outcomes example_world (WalkDir_calls example_world ''images'')) = 3"
    by (simp add: calls_example outcomes_example)
  have 3: "failures (outcomes example_world (WalkDir_calls example_world ''images''))
      = [NoExifError ''images/bad.jpg'' ErrNoExif]"
    by (simp add: calls_example outcomes_example)
  have 4: "records (outcomes example_world (WalkDir_calls example_world ''images''))
      = [record_a, record_b]"
    by (simp add: calls_example outcomes_example)
  from aggregate_tolerates_returned_error [OF 1 2 3 4] show ?thesis .
qed

lemma flat_short_world:
  "flatExifTags short_slice_world ''images/a.jpg'' = Inr tags_a"
  "flatExifTags short_slice_world ''images/short.jpg'' = Inr tags_short"
  "flatExifTags short_slice_world ''images/z.png'' = Inr tags_b"
  by (simp_all add: flatExifTags_def short_slice_world_def)

lemma loop_short: "tag_loop tags_short no_fields = Inl (IndexOutOfRange 2 2)"
  by (simp add: tags_short_def tag_simps parseGPSPosition_def at_index_def Let_def)

lemma build_short_world:
  "extractExifDataFromImage short_slice_world ''images/a.jpg'' = Inr (Inr record_a)"
  "extractExifDataFromImage short_slice_world ''images/short.jpg'' = Inl (IndexOutOfRange 2 2)"
  "extractExifDataFromImage short_slice_world ''images/z.png'' = Inr (Inr record_z)"
  by (simp_all add: extractExifDataFromImage_def flat_short_world loop_a loop_b loop_short
      record_a_def record_z_def)

lemma ext_short:
  "hasValidExtension ''short.jpg'' = True" "hasValidExtension ''z.png'' = True"
  by (simp_all add: hasValidExtension_def allowedExtensions_def HasSuffix_def)

text \<open>
  C5. A directory holds the sound images \<open>a.jpg\<close> and \<open>z.png\<close> and, between them, the
  damaged image \<open>short.jpg\<close>; all three pass the extension filter and the walk
  delivers no error of its own. The builder panics on \<open>short.jpg\<close>, so the walk does
  not go on: nothing is logged, \<open>z.png\<close> is never visited, exifDataArr holds the
  record of \<open>a.jpg\<close> alone, and main ends in the panic without writing a report.
\<close>

theorem aggregate_damaged_image_aborts:
  "walk_errors (WalkDir_calls short_slice_world ''images'') = []
   \<and> outcomes short_slice_world (WalkDir_calls short_slice_world ''images'')
       = [Inr (Inr record_a), Inl (IndexOutOfRange 2 2), Inr (Inr record_z)]
   \<and> aggregate short_slice_world ''images''
       = (Stop (Panicked (IndexOutOfRange 2 2)),
          \<lparr>logged = [], exifDataArr = [record_a], files = Map.empty\<rparr>)
   \<and> main short_slice_world no_flags
       = (Panicked (IndexOutOfRange 2 2),
          \<lparr>logged = [], exifDataArr = [record_a], files = Map.empty\<rparr>)"
proof -
  have c: "WalkDir_calls short_slice_world root = short_slice_calls" for root
    by (simp add: short_slice_world_def)
  have 1: "walk_errors (WalkDir_calls short_slice_world ''images'') = []"
    by (simp add: c short_slice_calls_def)
  have 2: "outcomes short_slice_world (WalkDir_calls short_slice_world ''images'')
       = [Inr (Inr record_a), Inl (IndexOutOfRange 2 2), Inr (Inr record_z)]"
    by (simp add: c short_slice_calls_def outcomes_def ext_examples ext_short build_short_world)
  have 3: "aggregate short_slice_world root
       = (Stop (Panicked (IndexOutOfRange 2 2)),
          \<lparr>logged = [], exifDataArr = [record_a], files = Map.empty\<rparr>)" for root
    by (simp add: aggregate_def c short_slice_calls_def ext_examples ext_short
        build_short_world start_def)
  have 4: "main short_slice_world no_flags
       = (Panicked (IndexOutOfRange 2 2),
          \<lparr>logged = [], exifDataArr = [record_a], files = Map.empty\<rparr>)"
    unfolding main_def 3 by simp
  from 1 2 3 4 show ?thesis by blast
qed

subsection \<open>A root that does not exist\<close>

text \<open>
  C8. When the root does not exist, \<^verbatim>\<open>os.Lstat\<close> fails and WalkDir makes one call, with
  the root and that error. Then the walk returns the error, main logs it and returns,
  and no file is created: neither \<open>exif-data.csv\<close> nor \<open>exif-data.html\<close>.
\<close>

theorem main_missing_root_writes_nothing:
  assumes "WalkDir_calls w (directoryPath fl) = [WalkError (directoryPath fl) err]"
  shows "aggregate w (directoryPath fl) =
           (Continue (Some err),
            \<lparr>logged = [LogWalkError (directoryPath fl) err], exifDataArr = [],
              files = Map.empty\<rparr>)
       \<and> main w fl =
           (Returned,
            \<lparr>logged = [LogWalkError (directoryPath fl) err, LogError err], exifDataArr = [],
              files = Map.empty\<rparr>)"
  using assms by (simp add: main_def aggregate_def start_def)

theorem main_missing_root_writes_nothing_witness:
  "main example_world missing_root_flags =
     (Returned,
      \<lparr>logged = [LogWalkError ''missing'' (GoError ''no such file or directory''),
                  LogError (GoError ''no such file or directory'')],
        exifDataArr = [], files = Map.empty\<rparr>)"
proof -
  have d: "directoryPath missing_root_flags = ''missing''"
    by (simp add: directoryPath_def missing_root_flags_def)
  have "WalkDir_calls example_world (directoryPath missing_root_flags) =
      [WalkError (directoryPath missing_root_flags) (GoError ''no such file or directory'')]"
    by (simp add: d example_world_def)
  from main_missing_root_writes_nothing [OF this] show ?thesis by (simp add: d)
qed

subsection \<open>An error in the middle of the walk\<close>

lemma extract_cong:
  assumes "ReadFile w1 path = ReadFile w2 path"
    and "SearchAndExtractExif w1 = SearchAndExtractExif w2"
    and "GetFlatExifDataUniversalSearch w1 = GetFlatExifDataUniversalSearch w2"
  shows "extractExifDataFromImage w1 path = extractExifDataFromImage w2 path"
  unfolding extractExifDataFromImage_def flatExifTags_def assms by (rule refl)

text \<open>
  C10. When the walk delivers an error for any entry, after calls \<open>pre\<close> that delivered
  none and on which the builder did not panic, the function returns that error and the
  walk stops there: the calls \<open>post\<close> are never made, main logs the error and returns,
  and no file is created, although exifDataArr holds the records built so far.
\<close>

theorem main_walk_error_writes_nothing:
  assumes "WalkDir_calls w (directoryPath fl) = pre @ WalkError path err # post"
    and "walk_errors pre = []"
    and "panics (outcomes w pre) = []"
  shows "aggregate w (directoryPath fl) =
           (Continue (Some err),
            \<lparr>logged = map LogExtractError (failures (outcomes w pre)) @ [LogWalkError path err],
              exifDataArr = records (outcomes w pre), files = Map.empty\<rparr>)
       \<and> main w fl =
           (Returned,
            \<lparr>logged = map LogExtractError (failures (outcomes w pre))
                       @ [LogWalkError path err, LogError err],
              exifDataArr = records (outcomes w pre), files = Map.empty\<rparr>)"
proof -
  have a: "aggregate w (directoryPath fl) =
           (Continue (Some err),
            \<lparr>logged = map LogExtractError (failures (outcomes w pre)) @ [LogWalkError path err],
              exifDataArr = records (outcomes w pre), files = Map.empty\<rparr>)"
    using WalkDir_entries [OF assms(2,3), of start]
    by (simp add: aggregate_def assms(1) WalkDir_append start_def)
  then show ?thesis by (simp add: main_def)
qed

lemma build_a_subdir:
  "extractExifDataFromImage unreadable_subdir_world ''images/a.jpg'' = Inr (Inr record_a)"
proof -
  have "extractExifDataFromImage unreadable_subdir_world ''images/a.jpg''
      = extractExifDataFromImage example_world ''images/a.jpg''"
    by (rule extract_cong) (simp_all add: unreadable_subdir_world_def)
  then show ?thesis by (simp add: build_a)
qed

text \<open>
  The theorem on the directory whose subdirectory \<open>private\<close> cannot be read: the record
  of \<open>a.jpg\<close> was built, \<open>z.jpg\<close> is never visited, and nothing is written.
\<close>

theorem main_walk_error_writes_nothing_witness:
  "main unreadable_subdir_world no_flags =
     (Returned,
      \<lparr>logged = [LogWalkError ''images/private'' (GoError ''permission denied''),
                  LogError (GoError ''permission denied'')],
        exifDataArr = [record_a], files = Map.empty\<rparr>)"
proof -
  let ?pre = "[Entry ''images'' ''images'', Entry ''images/a.jpg'' ''a.jpg'',
         Entry ''images/private'' ''private'']"
  have 1: "WalkDir_calls unreadable_subdir_world (directoryPath no_flags) =
      ?pre @ WalkError ''images/private'' (GoError ''permission denied'')
        # [Entry ''images/z.jpg'' ''z.jpg'']"
    by (simp add: unreadable_subdir_world_def)
  have 2: "walk_errors ?pre = []" by simp
  have o: "outcomes unreadable_subdir_world ?pre = [Inr (Inr record_a)]"
    by (simp add: outcomes_def ext_examples build_a_subdir)
  then have 3: "panics (outcomes unreadable_subdir_world ?pre) = []" by simp
  from main_walk_error_writes_nothing [OF 1 2 3] show ?thesis by (simp add: o)
qed

subsection \<open>Two runs over the same tree\<close>

lemma walkFn_cong:
  assumes "\<forall>path \<in> set (eligible_paths [c]).
      extractExifDataFromImage w1 path = extractExifDataFromImage w2 path"
  shows "walkFn w1 c s = walkFn w2 c s"
proof (cases c)
  case (WalkError path err)
  then show ?thesis by simp
next
  case (Entry path name)
  show ?thesis
  proof (cases "hasValidExtension name")
    case True
    with assms Entry have "extractExifDataFromImage w1 path = extractExifDataFromImage w2 path"
      by simp
    with Entry show ?thesis by (simp only: walkFn.simps)
  next
    case False
    with Entry show ?thesis by simp
  qed
qed

lemma eligible_paths_Cons:
  "set (eligible_paths (c # cs)) = set (eligible_paths [c]) \<union> set (eligible_paths cs)"
  by (cases c) simp_all

lemma WalkDir_cong:
  "\<forall>path \<in> set (eligible_paths calls).
      extractExifDataFromImage w1 path = extractExifDataFromImage w2 path \<Longrightarrow>
   WalkDir calls (walkFn w1) s = WalkDir calls (walkFn w2) s"
proof (induction calls arbitrary: s)
  case Nil
  show ?case by simp
next
  case (Cons c cs)
  from Cons.prems have one: "\<forall>path \<in> set (eligible_paths [c]).
      extractExifDataFromImage w1 path = extractExifDataFromImage w2 path"
    and rest: "\<forall>path \<in> set (eligible_paths cs).
      extractExifDataFromImage w1 path = extractExifDataFromImage w2 path"
    unfolding eligible_paths_Cons [of c cs] by blast+
  have step: "walkFn w1 c s = walkFn w2 c s"
    using one by (rule walkFn_cong)
  have ih: "WalkDir cs (walkFn w1) s' = WalkDir cs (walkFn w2) s'" for s'
    using rest by (rule Cons.IH)
  show ?case
    unfolding WalkDir.simps step
    by (simp only: ih)
qed

text \<open>
  C9. Two runs meet the same tree when the walk of the root makes the same calls in the
  same order, the files that pass the filter have the same content, and the decoding of
  go-exif is the same function. Then the two walks end alike and leave the same
  exifDataArr, element by element, and the same log; nothing else of the world (what
  other files hold, whether a report can be written) has a part in it.
\<close>

theorem aggregate_deterministic:
  assumes "WalkDir_calls w1 root = WalkDir_calls w2 root"
    and "\<forall>path \<in> set (eligible_paths (WalkDir_calls w1 root)). ReadFile w1 path = ReadFile w2 path"
    and "SearchAndExtractExif w1 = SearchAndExtractExif w2"
    and "GetFlatExifDataUniversalSearch w1 = GetFlatExifDataUniversalSearch w2"
  shows "aggregate w1 root = aggregate w2 root"
proof -
  have "\<forall>path \<in> set (eligible_paths (WalkDir_calls w1 root)).
      extractExifDataFromImage w1 path = extractExifDataFromImage w2 path"
  proof
    fix path
    assume "path \<in> set (eligible_paths (WalkDir_calls w1 root))"
    with assms(2) have "ReadFile w1 path = ReadFile w2 path" by blast
    then show "extractExifDataFromImage w1 path = extractExifDataFromImage w2 path"
      using assms(3,4) by (rule extract_cong)
  qed
  then have "WalkDir (WalkDir_calls w1 root) (walkFn w1) start
      = WalkDir (WalkDir_calls w1 root) (walkFn w2) start"
    by (rule WalkDir_cong)
  with assms(1) show ?thesis by (simp add: aggregate_def)
qed

text \<open>The theorem on two worlds that hold the same directory and differ in \<open>Create\<close>.\<close>

theorem aggregate_deterministic_witness:
  "aggregate example_world ''images'' = aggregate csv_blocked_world ''images''
   \<and> Create example_world \<noteq> Create csv_blocked_world"
proof -
  have 1: "WalkDir_calls example_world ''images'' = WalkDir_calls csv_blocked_world ''images''"
    by (simp add: csv_blocked_world_def)
  have 2: "\<forall>path \<in> set (eligible_paths (WalkDir_calls example_world ''images'')).
      ReadFile example_world path = ReadFile csv_blocked_world path"
    by (simp add: csv_blocked_world_def)
  have 3: "SearchAndExtractExif example_world = SearchAndExtractExif csv_blocked_world"
    by (simp add: csv_blocked_world_def)
  have 4: "GetFlatExifDataUniversalSearch example_world
      = GetFlatExifDataUniversalSearch csv_blocked_world"
    by (simp add: csv_blocked_world_def)
  have "Create example_world ''exif-data.csv'' \<noteq> Create csv_blocked_world ''exif-data.csv''"
    by (simp add: csv_blocked_world_def example_world_def)
  then have 5: "Create example_world \<noteq> Create csv_blocked_world" by metis
  from aggregate_deterministic [OF 1 2 3 4] 5 show ?thesis by blast
qed

section \<open>The reports\<close>

lemma aggregate_csv_blocked:
  "aggregate csv_blocked_world ''images'' =
     (Continue None,
      \<lparr>logged = [LogExtractError (NoExifError ''images/bad.jpg'' ErrNoExif)],
        exifDataArr = [record_a, record_b], files = Map.empty\<rparr>)"
proof -
  have e: "extractExifDataFromImage csv_blocked_world p = extractExifDataFromImage example_world p"
    for p by (rule extract_cong) (simp_all add: csv_blocked_world_def)
  have c: "WalkDir_calls csv_blocked_world ''images'' = example_calls"
    by (simp add: csv_blocked_world_def example_world_def)
  show ?thesis
    by (simp add: aggregate_def c example_calls_def ext_examples e build_a build_b build_bad
        start_def)
qed

text \<open>
  C6. With no flag both reports are asked for. When \<open>exif-data.csv\<close> cannot be created
  (and \<open>exif-data.html\<close> could be), createFile logs through \<^verbatim>\<open>log.Fatalf\<close> and the
  process ends with status 1: the branch of writeToCSV that logs and returns is never
  reached, writeToHTML is never called, and no file is written.
\<close>

theorem main_csv_create_failure_exits:
  "main csv_blocked_world no_flags =
     (Exit 1,
      \<lparr>logged = [LogExtractError (NoExifError ''images/bad.jpg'' ErrNoExif),
                  LogFatalCreate (GoError ''is a directory'')],
        exifDataArr = [record_a, record_b], files = Map.empty\<rparr>)
   \<and> Create csv_blocked_world ''exif-data.html'' = None"
proof -
  have d: "directoryPath no_flags = ''images''"
    by (simp add: directoryPath_def no_flags_def)
  have c: "Create csv_blocked_world ''exif-data.csv'' = Some (GoError ''is a directory'')"
    "Create csv_blocked_world ''exif-data.html'' = None"
    by (simp_all add: csv_blocked_world_def example_world_def)
  show ?thesis
    unfolding main_def d aggregate_csv_blocked
    by (simp add: no_flags_def writeToCSV_def createFile_def c)
qed

end
